theory Spec2Isabelle
  imports Main
begin

section \<open>Transport connection: \<^verbatim>\<open>web-ui/src/lib/ws-client.ts\<close>\<close>

text \<open>
  The class \<^verbatim>\<open>WebSocketClient\<close> is embedded by explicit state passing: its private
  fields form a record, every method and every socket, timer or DOM callback is a function
  from the record to the updated record. What the client does to the outside world (consumer
  callbacks, sockets, timers, listeners, console) is appended to the field \<open>effects\<close>.
  The consumer callbacks are observers: they are recorded, and are assumed not to call back
  into the client.
\<close>

datatype ConnectionState = Disconnected | Connecting | Connected | ConnError

text \<open>
  \<^verbatim>\<open>WebSocketClientOptions\<close>. The three optional properties are \<open>None\<close> when absent;
  after the constructor has merged the defaults they are present.
\<close>

record WebSocketClientOptions =
  url :: string
  authToken :: string
  reconnect :: "bool option"
  reconnectDelay :: "int option"
  maxReconnectDelay :: "int option"

text \<open>
  The host environment, taken as a parameter: whether \<^verbatim>\<open>window\<close> and \<^verbatim>\<open>document\<close>
  exist, the outcome of \<^verbatim>\<open>new URL(url)\<close>, \<^verbatim>\<open>searchParams.set('token', t)\<close> and
  \<^verbatim>\<open>new WebSocket(...)\<close> (\<open>Inl\<close> the message of the exception, \<open>Inr\<close> the final URL),
  \<^verbatim>\<open>JSON.parse\<close> (\<open>None\<close> when it throws) and \<^verbatim>\<open>JSON.stringify\<close> (\<open>None\<close> when it
  throws).
\<close>

record 'j Host =
  hasDom :: bool
  makeUrl :: "string \<Rightarrow> string \<Rightarrow> string + string"
  jsonParse :: "string \<Rightarrow> 'j option"
  jsonStringify :: "'j \<Rightarrow> string option"

datatype 'j Effect =
    OnStateChange ConnectionState "string option"
  | OnMessage 'j
  | NewWebSocket nat string
  | WsClose nat
  | WsSend nat string
  | SetTimeout int
  | ClearTimeout
  | AddListeners
  | RemoveListener
  | ConsoleLog
  | ConsoleError

text \<open>
  The fields of the class. \<open>ws\<close> is the number of the socket held (sockets are numbered in
  the order of their creation, \<open>sockets\<close> counts them), \<open>reconnectTimer\<close> is the pending
  timer with its delay, \<open>visibilityHandler\<close> and \<open>onlineHandler\<close> tell whether the
  listener is registered.
\<close>

record 'j WebSocketClient =
  ws :: "nat option"
  options :: WebSocketClientOptions
  state :: ConnectionState
  reconnectAttempt :: nat
  reconnectTimer :: "int option"
  shouldReconnect :: bool
  visibilityHandler :: bool
  onlineHandler :: bool
  sockets :: nat
  effects :: "'j Effect list"

datatype WsError = NotConnected | StringifyFailed

definition emit :: "'j Effect \<Rightarrow> 'j WebSocketClient \<Rightarrow> 'j WebSocketClient" where
  "emit e s = s\<lparr>effects := effects s @ [e]\<rparr>"

definition getState :: "'j WebSocketClient \<Rightarrow> ConnectionState" where
  "getState s = state s"

definition setState ::
  "ConnectionState \<Rightarrow> string option \<Rightarrow> 'j WebSocketClient \<Rightarrow> 'j WebSocketClient" where
  "setState st err s =
     (if state s = st then s else emit (OnStateChange st err) (s\<lparr>state := st\<rparr>))"

text \<open>
  \<^verbatim>\<open>Math.min(reconnectDelay * 2 ** reconnectAttempt, maxReconnectDelay)\<close>. Delays are
  integers of milliseconds; the rounding and overflow of doubles is not modelled. An
  undefined operand makes the result NaN, which \<^verbatim>\<open>setTimeout\<close> takes as 0.
\<close>

definition backoffDelay :: "WebSocketClientOptions \<Rightarrow> nat \<Rightarrow> int" where
  "backoffDelay opts attempt =
     (case (reconnectDelay opts, maxReconnectDelay opts) of
        (Some b, Some m) \<Rightarrow> min (b * 2 ^ attempt) m
      | _ \<Rightarrow> 0)"

definition scheduleReconnect :: "'j WebSocketClient \<Rightarrow> 'j WebSocketClient" where
  "scheduleReconnect s =
     (if reconnectTimer s \<noteq> None then s
      else
        let delay = backoffDelay (options s) (reconnectAttempt s);
            s1 = s\<lparr>reconnectAttempt := reconnectAttempt s + 1\<rparr>;
            s2 = emit ConsoleLog s1
        in emit (SetTimeout delay) (s2\<lparr>reconnectTimer := Some delay\<rparr>))"

definition connect :: "'j Host \<Rightarrow> 'j WebSocketClient \<Rightarrow> 'j WebSocketClient" where
  "connect h s =
     (if state s = Connected \<or> state s = Connecting then s
      else
        let s1 = setState Connecting None (s\<lparr>shouldReconnect := True\<rparr>)
        in case makeUrl h (url (options s1)) (authToken (options s1)) of
             Inl msg \<Rightarrow> setState ConnError (Some msg) s1
           | Inr u \<Rightarrow>
               emit (NewWebSocket (sockets s1) u)
                 (s1\<lparr>ws := Some (sockets s1), sockets := sockets s1 + 1\<rparr>))"

text \<open>The four handlers that \<^verbatim>\<open>connect\<close> installs on the socket.\<close>

definition onopen :: "'j WebSocketClient \<Rightarrow> 'j WebSocketClient" where
  "onopen s = setState Connected None (s\<lparr>reconnectAttempt := 0\<rparr>)"

definition onmessage :: "'j Host \<Rightarrow> string \<Rightarrow> 'j WebSocketClient \<Rightarrow> 'j WebSocketClient" where
  "onmessage h payload s =
     (case jsonParse h payload of
        None \<Rightarrow> emit ConsoleError s
      | Some d \<Rightarrow> emit (OnMessage d) s)"

definition onerror :: "'j WebSocketClient \<Rightarrow> 'j WebSocketClient" where
  "onerror s = setState ConnError (Some ''Connection error'') (emit ConsoleError s)"

definition onclose :: "'j WebSocketClient \<Rightarrow> 'j WebSocketClient" where
  "onclose s =
     (let s1 = s\<lparr>ws := None\<rparr>
      in if shouldReconnect s1 \<and> reconnect (options s1) = Some True
         then scheduleReconnect s1
         else setState Disconnected None s1)"

text \<open>The callback given to \<^verbatim>\<open>setTimeout\<close> by \<^verbatim>\<open>scheduleReconnect\<close>.\<close>

definition timerCallback :: "'j Host \<Rightarrow> 'j WebSocketClient \<Rightarrow> 'j WebSocketClient" where
  "timerCallback h s = connect h (s\<lparr>reconnectTimer := None\<rparr>)"

definition clearReconnectTimer :: "'j WebSocketClient \<Rightarrow> 'j WebSocketClient" where
  "clearReconnectTimer s =
     (case reconnectTimer s of
        None \<Rightarrow> s
      | Some d \<Rightarrow> (emit ClearTimeout s)\<lparr>reconnectTimer := None\<rparr>)"

definition immediateReconnect :: "'j Host \<Rightarrow> 'j WebSocketClient \<Rightarrow> 'j WebSocketClient" where
  "immediateReconnect h s =
     (if shouldReconnect s \<and> state s \<noteq> Connected \<and> state s \<noteq> Connecting
      then
        let s1 = emit ConsoleLog s;
            s2 = clearReconnectTimer s1;
            s3 = s2\<lparr>reconnectAttempt := 0\<rparr>
        in connect h s3
      else s)"

text \<open>
  The two listeners of \<^verbatim>\<open>setupVisibilityHandlers\<close>; \<open>visible\<close> is
  \<^verbatim>\<open>document.visibilityState === 'visible'\<close> at the time of the event.
\<close>

definition visibilityHandlerFn ::
  "'j Host \<Rightarrow> bool \<Rightarrow> 'j WebSocketClient \<Rightarrow> 'j WebSocketClient" where
  "visibilityHandlerFn h visible s =
     (if visible then immediateReconnect h (emit ConsoleLog s) else s)"

definition onlineHandlerFn :: "'j Host \<Rightarrow> 'j WebSocketClient \<Rightarrow> 'j WebSocketClient" where
  "onlineHandlerFn h s = immediateReconnect h (emit ConsoleLog s)"

definition setupVisibilityHandlers ::
  "'j Host \<Rightarrow> 'j WebSocketClient \<Rightarrow> 'j WebSocketClient" where
  "setupVisibilityHandlers h s =
     (if \<not> hasDom h then s
      else emit AddListeners (s\<lparr>visibilityHandler := True, onlineHandler := True\<rparr>))"

definition cleanupVisibilityHandlers ::
  "'j Host \<Rightarrow> 'j WebSocketClient \<Rightarrow> 'j WebSocketClient" where
  "cleanupVisibilityHandlers h s =
     (if \<not> hasDom h then s
      else
        let s1 = (if visibilityHandler s
                  then (emit RemoveListener s)\<lparr>visibilityHandler := False\<rparr> else s)
        in if onlineHandler s1
           then (emit RemoveListener s1)\<lparr>onlineHandler := False\<rparr> else s1)"

definition disconnect :: "'j Host \<Rightarrow> 'j WebSocketClient \<Rightarrow> 'j WebSocketClient" where
  "disconnect h s =
     (let s1 = s\<lparr>shouldReconnect := False\<rparr>;
          s2 = clearReconnectTimer s1;
          s3 = (case ws s2 of
                  None \<Rightarrow> s2
                | Some k \<Rightarrow> (emit (WsClose k) s2)\<lparr>ws := None\<rparr>);
          s4 = cleanupVisibilityHandlers h s3
      in setState Disconnected None s4)"

text \<open>\<^verbatim>\<open>send\<close> throws (\<open>Inl\<close>) or hands the serialised frame to the socket.\<close>

definition send ::
  "'j Host \<Rightarrow> 'j \<Rightarrow> 'j WebSocketClient \<Rightarrow> WsError + 'j WebSocketClient" where
  "send h d s =
     (if state s \<noteq> Connected \<or> ws s = None then Inl NotConnected
      else (case (ws s, jsonStringify h d) of
              (Some k, Some frame) \<Rightarrow> Inr (emit (WsSend k frame) s)
            | _ \<Rightarrow> Inl StringifyFailed))"

text \<open>The constructor: defaults first, then the properties the caller gave.\<close>

definition mergeDefaults :: "WebSocketClientOptions \<Rightarrow> WebSocketClientOptions" where
  "mergeDefaults opts =
     opts\<lparr>reconnect := Some (case reconnect opts of None \<Rightarrow> True | Some b \<Rightarrow> b),
          reconnectDelay := Some (case reconnectDelay opts of None \<Rightarrow> 1000 | Some d \<Rightarrow> d),
          maxReconnectDelay :=
            Some (case maxReconnectDelay opts of None \<Rightarrow> 30000 | Some d \<Rightarrow> d)\<rparr>"

definition newClient :: "'j Host \<Rightarrow> WebSocketClientOptions \<Rightarrow> 'j WebSocketClient" where
  "newClient h opts =
     setupVisibilityHandlers h
       \<lparr>ws = None, options = mergeDefaults opts, state = Disconnected,
        reconnectAttempt = 0, reconnectTimer = None, shouldReconnect = True,
        visibilityHandler = False, onlineHandler = False, sockets = 0, effects = []\<rparr>"

text \<open>
  What can happen to a client: a call of a public method, an event of a socket it created,
  the reconnect timer firing, and the two signals of the page. A timer fires only while it
  is pending, and a signal reaches the client only while its listener is registered.
\<close>

datatype 'j Event =
    CallConnect
  | CallDisconnect
  | CallSend 'j
  | SocketOpen
  | SocketMessage string
  | SocketError
  | SocketClose
  | TimerFires
  | VisibilityChange bool
  | NetworkOnline

definition step :: "'j Host \<Rightarrow> 'j Event \<Rightarrow> 'j WebSocketClient \<Rightarrow> 'j WebSocketClient" where
  "step h e s =
     (case e of
        CallConnect \<Rightarrow> connect h s
      | CallDisconnect \<Rightarrow> disconnect h s
      | CallSend d \<Rightarrow> (case send h d s of Inl err \<Rightarrow> s | Inr s' \<Rightarrow> s')
      | SocketOpen \<Rightarrow> onopen s
      | SocketMessage payload \<Rightarrow> onmessage h payload s
      | SocketError \<Rightarrow> onerror s
      | SocketClose \<Rightarrow> onclose s
      | TimerFires \<Rightarrow> (if reconnectTimer s = None then s else timerCallback h s)
      | VisibilityChange visible \<Rightarrow>
          (if visibilityHandler s then visibilityHandlerFn h visible s else s)
      | NetworkOnline \<Rightarrow> (if onlineHandler s then onlineHandlerFn h s else s))"

fun run :: "'j Host \<Rightarrow> 'j Event list \<Rightarrow> 'j WebSocketClient \<Rightarrow> 'j WebSocketClient" where
  "run h [] s = s"
| "run h (e # es) s = run h es (step h e s)"

section \<open>Tool execution tracker: \<^verbatim>\<open>stores/tool-executions\<close>\<close>

text \<open>
  The store is the pair of the object \<^verbatim>\<open>executions\<close> (call id to record) and the array
  \<^verbatim>\<open>executionOrder\<close>. Every function is a state update \<^verbatim>\<open>setState((state) => ...)\<close>
  and is embedded as a function from the store to the new store. The two values read from
  outside, the state of the messages store and \<^verbatim>\<open>Date.now()\<close>, are arguments.
\<close>

datatype Status = Called | Running | Completed | ExecError

text \<open>
  \<^verbatim>\<open>ToolExecution\<close>. A field is \<open>None\<close> when the property is absent, undefined or
  null. The interface declares \<^verbatim>\<open>toolCallId\<close>, \<^verbatim>\<open>toolName\<close>, \<^verbatim>\<open>args\<close>,
  \<^verbatim>\<open>status\<close> and \<^verbatim>\<open>startTime\<close> as required, but the objects built at run time by
  spreading an existing value can lack them (see \<open>getExecution\<close>).
\<close>

record ('a, 'r) ToolExecution =
  toolCallId :: "string option"
  toolName :: "string option"
  args :: "'a option"
  status :: "Status option"
  partialResult :: "'r option"
  result :: "'r option"
  isError :: "bool option"
  startTime :: "int option"
  endTime :: "int option"
  messageId :: "string option"

record ('a, 'r) ToolExecutionsStore =
  executions :: "string \<rightharpoonup> ('a, 'r) ToolExecution"
  executionOrder :: "string list"

definition INITIAL_STATE :: "('a, 'r) ToolExecutionsStore" where
  "INITIAL_STATE = \<lparr>executions = Map.empty, executionOrder = []\<rparr>"

text \<open>The part of the messages store that the tracker reads.\<close>

datatype Role = User | Assistant

record Message =
  msgId :: string
  role :: Role

record MessagesState =
  currentMessageId :: "string option"
  messages :: "Message list"

text \<open>
  \<^verbatim>\<open>if (currentMessageId) return currentMessageId\<close> tests truthiness: null and the empty
  string both fall through to the search for the last assistant message.
\<close>

definition resolveCurrentAssistantMessageId :: "MessagesState \<Rightarrow> string option" where
  "resolveCurrentAssistantMessageId m =
     (case currentMessageId m of
        Some c \<Rightarrow>
          if c \<noteq> [] then Some c
          else map_option msgId (find (\<lambda>x. role x = Assistant) (rev (messages m)))
      | None \<Rightarrow> map_option msgId (find (\<lambda>x. role x = Assistant) (rev (messages m))))"

text \<open>
  The names that every plain object inherits from \<^verbatim>\<open>Object.prototype\<close>. The store's
  \<^verbatim>\<open>executions\<close> is a plain object (\<^verbatim>\<open>{}\<close>, then object literals with a spread), so a
  read \<^verbatim>\<open>state.executions[id]\<close> of a key that is not an own property continues on the
  prototype and, for these names, yields a built-in function (the prototype object itself for
  \<^verbatim>\<open>__proto__\<close>).
\<close>

definition objectPrototypeKeys :: "string list" where
  "objectPrototypeKeys =
     [''constructor'', ''hasOwnProperty'', ''isPrototypeOf'', ''propertyIsEnumerable'',
      ''toLocaleString'', ''toString'', ''valueOf'', ''__defineGetter__'',
      ''__defineSetter__'', ''__lookupGetter__'', ''__lookupSetter__'', ''__proto__'']"

text \<open>
  A value with none of the properties of a \<^verbatim>\<open>ToolExecution\<close>. An inherited built-in is
  truthy, each of its \<^verbatim>\<open>ToolExecution\<close> properties reads as undefined, and spreading it
  copies nothing (it has no own enumerable property): in the code below it acts as this
  record.
\<close>

definition noFields :: "('a, 'r) ToolExecution" where
  "noFields =
     \<lparr>toolCallId = None, toolName = None, args = None, status = None,
      partialResult = None, result = None, isError = None, startTime = None,
      endTime = None, messageId = None\<rparr>"

text \<open>\<^verbatim>\<open>state.executions[id]\<close>: \<open>None\<close> is undefined, the only falsy outcome.\<close>

definition getExecution ::
  "(string \<rightharpoonup> ('a, 'r) ToolExecution) \<Rightarrow> string \<Rightarrow> ('a, 'r) ToolExecution option" where
  "getExecution ex k =
     (case ex k of
        Some e \<Rightarrow> Some e
      | None \<Rightarrow> if k \<in> set objectPrototypeKeys then Some noFields else None)"

definition appendOrder :: "string \<Rightarrow> string list \<Rightarrow> string list" where
  "appendOrder k order = (if k \<in> set order then order else order @ [k])"

definition registerToolCall ::
  "MessagesState \<Rightarrow> int \<Rightarrow> string \<Rightarrow> string \<Rightarrow> 'a \<Rightarrow>
   ('a, 'r) ToolExecutionsStore \<Rightarrow> ('a, 'r) ToolExecutionsStore" where
  "registerToolCall m now cid name a st =
     (let mid = resolveCurrentAssistantMessageId m;
          existing = getExecution (executions st) cid
      in st\<lparr>executions := (executions st)(cid \<mapsto>
              (case existing of
                 Some e \<Rightarrow>
                   e\<lparr>toolName := Some name, args := Some a,
                     messageId := (case messageId e of Some x \<Rightarrow> Some x | None \<Rightarrow> mid)\<rparr>
               | None \<Rightarrow>
                   \<lparr>toolCallId = Some cid, toolName = Some name, args = Some a,
                    status = Some Called, partialResult = None, result = None,
                    isError = None, startTime = Some now, endTime = None,
                    messageId = mid\<rparr>)),
            executionOrder := appendOrder cid (executionOrder st)\<rparr>)"

definition startToolExecution ::
  "MessagesState \<Rightarrow> int \<Rightarrow> string \<Rightarrow> string \<Rightarrow> 'a \<Rightarrow>
   ('a, 'r) ToolExecutionsStore \<Rightarrow> ('a, 'r) ToolExecutionsStore" where
  "startToolExecution m now cid name a st =
     (let mid = resolveCurrentAssistantMessageId m;
          existing = getExecution (executions st) cid
      in st\<lparr>executions := (executions st)(cid \<mapsto>
              \<lparr>toolCallId = Some cid, toolName = Some name, args = Some a,
               status = Some Running,
               partialResult = Option.bind existing partialResult,
               result = Option.bind existing result,
               isError = Option.bind existing isError,
               startTime =
                 (case Option.bind existing startTime of Some t \<Rightarrow> Some t | None \<Rightarrow> Some now),
               endTime = Option.bind existing endTime,
               messageId =
                 (case Option.bind existing messageId of Some x \<Rightarrow> Some x | None \<Rightarrow> mid)\<rparr>),
            executionOrder := appendOrder cid (executionOrder st)\<rparr>)"

definition updateToolExecution ::
  "string \<Rightarrow> 'r \<Rightarrow> ('a, 'r) ToolExecutionsStore \<Rightarrow> ('a, 'r) ToolExecutionsStore" where
  "updateToolExecution cid partial st =
     (case getExecution (executions st) cid of
        None \<Rightarrow> st
      | Some execution \<Rightarrow>
          st\<lparr>executions := (executions st)(cid \<mapsto> execution\<lparr>partialResult := Some partial\<rparr>)\<rparr>)"

definition finishToolExecution ::
  "int \<Rightarrow> string \<Rightarrow> 'r \<Rightarrow> bool \<Rightarrow>
   ('a, 'r) ToolExecutionsStore \<Rightarrow> ('a, 'r) ToolExecutionsStore" where
  "finishToolExecution now cid res err st =
     (case getExecution (executions st) cid of
        None \<Rightarrow> st
      | Some execution \<Rightarrow>
          st\<lparr>executions := (executions st)(cid \<mapsto>
              execution\<lparr>status := Some (if err then ExecError else Completed),
                        result := Some res, isError := Some err, endTime := Some now\<rparr>)\<rparr>)"

text \<open>
  One call of the tracker, with the messages store and the clock at the time of the call.
\<close>

datatype ('a, 'r) ToolOp =
    Register string string 'a
  | Start string string 'a
  | Update string 'r
  | Finish string 'r bool

fun opId :: "('a, 'r) ToolOp \<Rightarrow> string" where
  "opId (Register cid name a) = cid"
| "opId (Start cid name a) = cid"
| "opId (Update cid p) = cid"
| "opId (Finish cid r e) = cid"

fun applyOp ::
  "MessagesState \<times> int \<times> ('a, 'r) ToolOp \<Rightarrow>
   ('a, 'r) ToolExecutionsStore \<Rightarrow> ('a, 'r) ToolExecutionsStore" where
  "applyOp (m, now, Register cid name a) st = registerToolCall m now cid name a st"
| "applyOp (m, now, Start cid name a) st = startToolExecution m now cid name a st"
| "applyOp (m, now, Update cid p) st = updateToolExecution cid p st"
| "applyOp (m, now, Finish cid r e) st = finishToolExecution now cid r e st"

fun applyOps ::
  "(MessagesState \<times> int \<times> ('a, 'r) ToolOp) list \<Rightarrow>
   ('a, 'r) ToolExecutionsStore \<Rightarrow> ('a, 'r) ToolExecutionsStore" where
  "applyOps [] st = st"
| "applyOps (c # cs) st = applyOps cs (applyOp c st)"

section \<open>Scenarios and observations\<close>

text \<open>A host and a set of options to run the client on: every optional property is absent.\<close>

definition demoHost :: "string Host" where
  "demoHost =
     \<lparr>hasDom = True,
      makeUrl = (\<lambda>u t. if u = [] then Inl ''Invalid URL'' else Inr (u @ ''?token='' @ t)),
      jsonParse = (\<lambda>p. if p = ''{'' then None else Some p),
      jsonStringify = Some\<rparr>"

definition demoOptions :: WebSocketClientOptions where
  "demoOptions =
     \<lparr>url = ''ws://localhost:3000'', authToken = ''secret'', reconnect = None,
      reconnectDelay = None, maxReconnectDelay = None\<rparr>"

text \<open>
  Three clients reached from a new one: connected; failed once, with a reconnect pending;
  and used again after an explicit disconnect, then failed once.
\<close>

definition openedClient :: "string WebSocketClient" where
  "openedClient = run demoHost [CallConnect, SocketOpen] (newClient demoHost demoOptions)"

definition failedClient :: "string WebSocketClient" where
  "failedClient = run demoHost [CallConnect, SocketError, SocketClose] (newClient demoHost demoOptions)"

definition reusedClient :: "string WebSocketClient" where
  "reusedClient =
     run demoHost
       [CallConnect, SocketOpen, CallDisconnect, SocketClose, CallConnect, SocketError,
        SocketClose]
       (newClient demoHost demoOptions)"

text \<open>
  \<open>n\<close> consecutive failed connections: the pending timer (if any) fires and calls
  \<^verbatim>\<open>connect\<close>, the socket reports an error and closes. No socket opens in between.
\<close>

fun failedAttempts :: "nat \<Rightarrow> 'j Event list" where
  "failedAttempts 0 = []"
| "failedAttempts (Suc n) = failedAttempts n @ [TimerFires, SocketError, SocketClose]"

text \<open>
  The effects that make up reconnection activity: a socket is created, a reconnect is
  scheduled, or the consumer is told that the client is connecting.
\<close>

fun isAttempt :: "'j Effect \<Rightarrow> bool" where
  "isAttempt (NewWebSocket k u) = True"
| "isAttempt (SetTimeout d) = True"
| "isAttempt (OnStateChange st err) = (st = Connecting)"
| "isAttempt e = False"

fun isStateChange :: "'j Effect \<Rightarrow> bool" where
  "isStateChange (OnStateChange st err) = True"
| "isStateChange e = False"

fun isNewWebSocket :: "'j Effect \<Rightarrow> bool" where
  "isNewWebSocket (NewWebSocket k u) = True"
| "isNewWebSocket e = False"

text \<open>
  Observations on the tool execution tracker. A status is terminal when it is completed or
  error; the rank orders the statuses called, running, terminal (an absent status ranks
  lowest).
\<close>

definition terminal :: "Status option \<Rightarrow> bool" where
  "terminal s = (s = Some Completed \<or> s = Some ExecError)"

fun statusRank :: "Status option \<Rightarrow> nat" where
  "statusRank None = 0"
| "statusRank (Some Called) = 1"
| "statusRank (Some Running) = 2"
| "statusRank (Some Completed) = 3"
| "statusRank (Some ExecError) = 3"

text \<open>Every record with a terminal status carries an end timestamp.\<close>

definition endStamped :: "('a, 'r) ToolExecutionsStore \<Rightarrow> bool" where
  "endStamped st = (\<forall>k e. executions st k = Some e \<longrightarrow> terminal (status e) \<longrightarrow> endTime e \<noteq> None)"

fun isStartOrFinish :: "('a, 'r) ToolOp \<Rightarrow> bool" where
  "isStartOrFinish (Start cid name a) = True"
| "isStartOrFinish (Finish cid r e) = True"
| "isStartOrFinish c = False"

fun isUpdate :: "('a, 'r) ToolOp \<Rightarrow> bool" where
  "isUpdate (Update cid p) = True"
| "isUpdate c = False"

text \<open>
  The calls allowed between the start and the finish of a call id: partial updates of that
  id, and any call on another id.
\<close>

fun updatesOrOthers :: "string \<Rightarrow> (MessagesState \<times> int \<times> ('a, 'r) ToolOp) list \<Rightarrow> bool" where
  "updatesOrOthers cid [] = True"
| "updatesOrOthers cid ((m, now, op) # cs) =
     ((isUpdate op \<or> opId op \<noteq> cid) \<and> updatesOrOthers cid cs)"

text \<open>
  Two states of the messages store (nothing yet; one assistant message streaming) and two
  stores reached from the initial one.
\<close>

definition noMessages :: MessagesState where
  "noMessages = \<lparr>currentMessageId = None, messages = []\<rparr>"

definition streaming :: "string \<Rightarrow> MessagesState" where
  "streaming mid = \<lparr>currentMessageId = Some mid, messages = [\<lparr>msgId = mid, role = Assistant\<rparr>]\<rparr>"

definition registeredOnly :: "(unit, string) ToolExecutionsStore" where
  "registeredOnly = applyOps [(streaming ''msg-1'', 0, Register ''call-1'' ''bash'' ())] INITIAL_STATE"

definition finishedCall :: "(unit, string) ToolExecutionsStore" where
  "finishedCall =
     applyOps [(streaming ''msg-1'', 0, Register ''call-1'' ''bash'' ()),
               (streaming ''msg-1'', 1, Finish ''call-1'' ''done'' False)] INITIAL_STATE"

section \<open>Properties of the transport connection\<close>

lemmas ws_defs = emit_def setState_def scheduleReconnect_def connect_def onopen_def
  onmessage_def onerror_def onclose_def timerCallback_def clearReconnectTimer_def
  immediateReconnect_def visibilityHandlerFn_def onlineHandlerFn_def
  setupVisibilityHandlers_def cleanupVisibilityHandlers_def disconnect_def send_def
  step_def

lemmas demo_defs = newClient_def mergeDefaults_def demoHost_def demoOptions_def

lemma run_append: "run h (es @ fs) s = run h fs (run h es s)"
  by (induction es arbitrary: s) simp_all

lemma openedClient_eval:
  "openedClient =
     \<lparr>ws = Some 0, options = mergeDefaults demoOptions, state = Connected,
      reconnectAttempt = 0, reconnectTimer = None, shouldReconnect = True,
      visibilityHandler = True, onlineHandler = True, sockets = 1,
      effects = [AddListeners, OnStateChange Connecting None,
        NewWebSocket 0 ''ws://localhost:3000?token=secret'', OnStateChange Connected None]\<rparr>"
  by (simp add: openedClient_def ws_defs demo_defs Let_def)

lemma failedClient_eval:
  "failedClient =
     \<lparr>ws = None, options = mergeDefaults demoOptions, state = ConnError,
      reconnectAttempt = 1, reconnectTimer = Some 1000, shouldReconnect = True,
      visibilityHandler = True, onlineHandler = True, sockets = 1,
      effects = [AddListeners, OnStateChange Connecting None,
        NewWebSocket 0 ''ws://localhost:3000?token=secret'', ConsoleError,
        OnStateChange ConnError (Some ''Connection error''), ConsoleLog, SetTimeout 1000]\<rparr>"
  by (simp add: failedClient_def ws_defs demo_defs backoffDelay_def Let_def)

subsection \<open>Reconnect backoff\<close>

lemma round_backoff:
  assumes "shouldReconnect s" "reconnect (options s) = Some True"
  shows "let s' = run h [TimerFires, SocketError, SocketClose] s in
         options s' = options s \<and> shouldReconnect s' \<and>
         reconnectAttempt s' = reconnectAttempt s + 1 \<and>
         reconnectTimer s' = Some (backoffDelay (options s) (reconnectAttempt s))"
  using assms
  by (auto simp: ws_defs Let_def split: sum.splits Event.splits)

lemma failedAttempts_inv:
  assumes "reconnectAttempt s = 0" "shouldReconnect s" "reconnect (options s) = Some True"
  shows "options (run h (failedAttempts (Suc k)) s) = options s \<and>
         shouldReconnect (run h (failedAttempts (Suc k)) s) \<and>
         reconnectAttempt (run h (failedAttempts (Suc k)) s) = Suc k \<and>
         reconnectTimer (run h (failedAttempts (Suc k)) s) = Some (backoffDelay (options s) k)"
proof (induction k)
  case 0
  show ?case using round_backoff [OF assms(2,3), of h] assms(1) by (simp add: Let_def)
next
  case (Suc k)
  let ?t = "run h (failedAttempts (Suc k)) s"
  have sr: "shouldReconnect ?t" and ro: "reconnect (options ?t) = Some True"
    using Suc assms(3) by simp_all
  have "run h (failedAttempts (Suc (Suc k))) s = run h [TimerFires, SocketError, SocketClose] ?t"
    by (simp only: failedAttempts.simps(2) [of "Suc k"] run_append)
  then show ?case using round_backoff [OF sr ro, of h] Suc by (simp add: Let_def)
qed

text \<open>
  Claim C1, as the spec states it, at its first instance: after one unexpected close the
  scheduled delay would be \<open>min (base * 2 ^ 1) max\<close>. With the default options (base 1000,
  max 30000) the client schedules 1000, not 2000: the exponent is the attempt counter
  before it is incremented.
\<close>

theorem backoff_first_close_counterexample:
  "failedClient = run demoHost [CallConnect, SocketError, SocketClose] (newClient demoHost demoOptions)
   \<and> reconnectDelay (options failedClient) = Some 1000
   \<and> maxReconnectDelay (options failedClient) = Some 30000
   \<and> reconnectTimer failedClient = Some 1000
   \<and> reconnectTimer failedClient \<noteq> Some (min (1000 * 2 ^ 1) 30000)"
proof -
  have "reconnectDelay (options failedClient) = Some 1000
        \<and> maxReconnectDelay (options failedClient) = Some 30000
        \<and> reconnectTimer failedClient = Some 1000
        \<and> reconnectTimer failedClient \<noteq> Some (min (1000 * 2 ^ 1) 30000)"
    by (simp add: failedClient_eval mergeDefaults_def demoOptions_def)
  moreover have "failedClient =
      run demoHost [CallConnect, SocketError, SocketClose] (newClient demoHost demoOptions)"
    by (rule failedClient_def)
  ultimately show ?thesis by blast
qed

text \<open>
  Claim C1, amended: for every \<open>n \<ge> 1\<close>, after \<open>n\<close> consecutive unexpected closes with no
  successful connection in between (starting with the attempt counter at zero and
  reconnection enabled), the delay scheduled upon the \<open>n\<close>-th close is
  \<open>min (base * 2 ^ (n - 1)) max\<close> and the attempt counter is \<open>n\<close>; a successful open resets
  the attempt counter to zero.
\<close>

theorem backoff_nth_close:
  assumes "reconnectAttempt s = 0" "shouldReconnect s"
    "reconnect (options s) = Some True"
    "reconnectDelay (options s) = Some base" "maxReconnectDelay (options s) = Some mx"
    "1 \<le> n"
  shows "reconnectTimer (run h (failedAttempts n) s) = Some (min (base * 2 ^ (n - 1)) mx)
         \<and> reconnectAttempt (run h (failedAttempts n) s) = n
         \<and> reconnectAttempt (onopen (run h (failedAttempts n) s)) = 0"
proof -
  obtain k where n: "n = Suc k" using assms(6) by (cases n) simp_all
  have "backoffDelay (options s) k = min (base * 2 ^ k) mx"
    using assms(4,5) by (simp add: backoffDelay_def)
  then show ?thesis
    using failedAttempts_inv [OF assms(1,2,3), of h k] n
    by (simp add: onopen_def setState_def emit_def)
qed

theorem backoff_nth_close_witness:
  "reconnectAttempt (connect demoHost (newClient demoHost demoOptions)) = 0 \<and>
   shouldReconnect (connect demoHost (newClient demoHost demoOptions)) \<and>
   reconnect (options (connect demoHost (newClient demoHost demoOptions))) = Some True \<and>
   reconnectDelay (options (connect demoHost (newClient demoHost demoOptions))) = Some 1000 \<and>
   maxReconnectDelay (options (connect demoHost (newClient demoHost demoOptions))) = Some 30000 \<and>
   (1::nat) \<le> 3 \<and>
   reconnectTimer
     (run demoHost (failedAttempts 3) (connect demoHost (newClient demoHost demoOptions)))
     = Some 4000 \<and>
   reconnectAttempt
     (run demoHost (failedAttempts 3) (connect demoHost (newClient demoHost demoOptions))) = 3"
  using backoff_nth_close
    [of "connect demoHost (newClient demoHost demoOptions)" 1000 30000 3 demoHost]
  by (simp add: ws_defs demo_defs Let_def)

subsection \<open>A close while connected\<close>

lemma stalled_step:
  assumes "state s = Connected" "ws s = None" "shouldReconnect s"
    "reconnect (options s) = Some True" "e \<noteq> CallDisconnect" "e \<noteq> SocketError"
  shows "state (step h e s) = Connected \<and> ws (step h e s) = None \<and>
         shouldReconnect (step h e s) \<and> reconnect (options (step h e s)) = Some True \<and>
         filter isNewWebSocket (effects (step h e s)) = filter isNewWebSocket (effects s)"
  using assms by (cases e) (simp_all add: ws_defs Let_def split: option.splits)

lemma stalled_run:
  assumes "state s = Connected" "ws s = None" "shouldReconnect s"
    "reconnect (options s) = Some True" "CallDisconnect \<notin> set es" "SocketError \<notin> set es"
  shows "state (run h es s) = Connected \<and> ws (run h es s) = None \<and>
         filter isNewWebSocket (effects (run h es s)) = filter isNewWebSocket (effects s)"
  using assms
proof (induction es arbitrary: s)
  case Nil
  then show ?case by simp
next
  case (Cons e es)
  have ne: "e \<noteq> CallDisconnect" "e \<noteq> SocketError" using Cons.prems by auto
  note st = stalled_step [OF Cons.prems(1-4) ne, of h]
  have "state (run h es (step h e s)) = Connected \<and> ws (run h es (step h e s)) = None \<and>
        filter isNewWebSocket (effects (run h es (step h e s))) =
        filter isNewWebSocket (effects (step h e s))"
    using Cons.IH [of "step h e s"] st Cons.prems by simp
  then show ?case using st by simp
qed

text \<open>
  Claim C2: if the socket closes while the state is \<open>Connected\<close> (no error event came
  first) and reconnection is enabled, then the close handler emits no state-change
  notification, \<^verbatim>\<open>getState()\<close> still returns connected and a reconnect timer is pending;
  when that timer fires, \<^verbatim>\<open>connect()\<close> returns at once (only the timer field is
  cleared); and whatever happens afterwards, short of an explicit \<^verbatim>\<open>disconnect()\<close> or an
  error event, the state stays connected, no socket is held and none is ever created.
\<close>

theorem close_while_connected_stalls:
  assumes "state s = Connected" "shouldReconnect s" "reconnect (options s) = Some True"
  shows "getState (onclose s) = Connected \<and>
         filter isStateChange (effects (onclose s)) = filter isStateChange (effects s) \<and>
         reconnectTimer (onclose s) \<noteq> None \<and>
         step h TimerFires (onclose s) = (onclose s)\<lparr>reconnectTimer := None\<rparr> \<and>
         (\<forall>es. CallDisconnect \<notin> set es \<and> SocketError \<notin> set es \<longrightarrow>
            getState (run h es (onclose s)) = Connected \<and>
            ws (run h es (onclose s)) = None \<and>
            filter isNewWebSocket (effects (run h es (onclose s))) =
              filter isNewWebSocket (effects s))"
proof -
  have a: "state (onclose s) = Connected" "ws (onclose s) = None" "shouldReconnect (onclose s)"
    "reconnect (options (onclose s)) = Some True"
    "filter isNewWebSocket (effects (onclose s)) = filter isNewWebSocket (effects s)"
    using assms by (simp_all add: ws_defs Let_def)
  have b: "filter isStateChange (effects (onclose s)) = filter isStateChange (effects s)"
    "reconnectTimer (onclose s) \<noteq> None"
    using assms by (auto simp: ws_defs Let_def)
  have c: "step h TimerFires (onclose s) = (onclose s)\<lparr>reconnectTimer := None\<rparr>"
    using a(1) b(2) by (simp add: step_def timerCallback_def connect_def)
  show ?thesis using a b c stalled_run [OF a(1-4), of _ h] by (simp add: getState_def)
qed

theorem close_while_connected_stalls_witness:
  "state openedClient = Connected \<and> shouldReconnect openedClient \<and>
   reconnect (options openedClient) = Some True \<and>
   getState (onclose openedClient) = Connected \<and>
   reconnectTimer (onclose openedClient) = Some 1000 \<and>
   CallDisconnect \<notin> set [TimerFires, CallConnect, NetworkOnline, VisibilityChange True] \<and>
   SocketError \<notin> set [TimerFires, CallConnect, NetworkOnline, VisibilityChange True :: string Event] \<and>
   ws (run demoHost [TimerFires, CallConnect, NetworkOnline, VisibilityChange True]
         (onclose openedClient)) = None \<and>
   filter isNewWebSocket
     (effects (run demoHost [TimerFires, CallConnect, NetworkOnline, VisibilityChange True]
                 (onclose openedClient)))
     = [NewWebSocket 0 ''ws://localhost:3000?token=secret'']"
  using close_while_connected_stalls [of openedClient demoHost]
  by (simp add: openedClient_eval ws_defs mergeDefaults_def demoOptions_def backoffDelay_def Let_def)

subsection \<open>Explicit disconnect\<close>

lemma disconnected_step:
  assumes "\<not> shouldReconnect s" "reconnectTimer s = None" "e \<noteq> CallConnect"
  shows "\<not> shouldReconnect (step h e s) \<and> reconnectTimer (step h e s) = None \<and>
         filter isAttempt (effects (step h e s)) = filter isAttempt (effects s)"
  using assms by (cases e) (simp_all add: ws_defs Let_def split: option.splits)

lemma disconnected_run:
  assumes "\<not> shouldReconnect s" "reconnectTimer s = None" "CallConnect \<notin> set es"
  shows "\<not> shouldReconnect (run h es s) \<and> reconnectTimer (run h es s) = None \<and>
         filter isAttempt (effects (run h es s)) = filter isAttempt (effects s)"
  using assms
proof (induction es arbitrary: s)
  case Nil
  then show ?case by simp
next
  case (Cons e es)
  have ne: "e \<noteq> CallConnect" using Cons.prems by auto
  note st = disconnected_step [OF Cons.prems(1,2) ne, of h]
  show ?case using Cons.IH [of "step h e s"] st Cons.prems by simp
qed

lemma disconnect_post:
  "\<not> shouldReconnect (disconnect h s) \<and> reconnectTimer (disconnect h s) = None \<and>
   ws (disconnect h s) = None \<and> state (disconnect h s) = Disconnected \<and>
   filter isAttempt (effects (disconnect h s)) = filter isAttempt (effects s)"
  by (simp add: ws_defs Let_def split: option.splits)

lemma disconnect_clears:
  "reconnectTimer s = Some d \<Longrightarrow>
   ClearTimeout \<in> set (drop (length (effects s)) (effects (disconnect h s)))"
  by (simp add: ws_defs Let_def split: option.splits)

text \<open>
  Claim C6: \<^verbatim>\<open>disconnect()\<close> cancels the pending reconnect timer (none is pending
  afterwards, and \<^verbatim>\<open>clearTimeout\<close> was called if one was), and for every sequence of
  events after it that contains no explicit \<^verbatim>\<open>connect()\<close> (close events, timer firings,
  visibility and online signals, or anything else) no reconnection activity occurs: no
  socket is created, no reconnect is scheduled and the state never becomes connecting.
\<close>

theorem no_reconnect_after_disconnect:
  assumes "CallConnect \<notin> set es"
  shows "reconnectTimer (disconnect h s) = None \<and>
         (reconnectTimer s \<noteq> None \<longrightarrow>
            ClearTimeout \<in> set (drop (length (effects s)) (effects (disconnect h s)))) \<and>
         reconnectTimer (run h es (disconnect h s)) = None \<and>
         filter isAttempt (effects (run h es (disconnect h s))) = filter isAttempt (effects s)"
  using disconnect_post [of h s] disconnect_clears [of s _ h]
    disconnected_run [of "disconnect h s" es h] assms
  by auto

theorem no_reconnect_after_disconnect_witness:
  "CallConnect \<notin> set [SocketClose, TimerFires, VisibilityChange True, NetworkOnline :: string Event] \<and>
   reconnectTimer failedClient \<noteq> None \<and>
   reconnectTimer (disconnect demoHost failedClient) = None \<and>
   ClearTimeout \<in> set (drop (length (effects failedClient))
                          (effects (disconnect demoHost failedClient))) \<and>
   filter isAttempt
     (effects (run demoHost [SocketClose, TimerFires, VisibilityChange True, NetworkOnline]
                 (disconnect demoHost failedClient)))
     = filter isAttempt (effects failedClient)"
  using no_reconnect_after_disconnect
    [of "[SocketClose, TimerFires, VisibilityChange True, NetworkOnline]" demoHost failedClient]
  by (simp add: failedClient_eval)

subsection \<open>Visibility and online signals\<close>

text \<open>
  While both listeners are registered, a visible-tab or online signal that finds
  reconnection wanted and the state neither connected nor connecting does, in this order:
  cancel the pending timer (if any), reset the attempt counter, and call \<^verbatim>\<open>connect()\<close>,
  which announces the state connecting and creates the socket (or reports the error of the
  URL). No timer is pending afterwards.
\<close>

lemma immediate_reconnect_registered:
  assumes "shouldReconnect s" "state s \<noteq> Connected" "state s \<noteq> Connecting"
    "visibilityHandler s" "onlineHandler s" "e = VisibilityChange True \<or> e = NetworkOnline"
  shows "effects (step h e s) =
           effects s @ [ConsoleLog, ConsoleLog]
             @ (if reconnectTimer s = None then [] else [ClearTimeout])
             @ [OnStateChange Connecting None]
             @ (case makeUrl h (url (options s)) (authToken (options s)) of
                  Inl msg \<Rightarrow> [OnStateChange ConnError (Some msg)]
                | Inr u \<Rightarrow> [NewWebSocket (sockets s) u]) \<and>
         reconnectTimer (step h e s) = None \<and> reconnectAttempt (step h e s) = 0"
  using assms by (auto simp: ws_defs Let_def split: option.splits sum.splits)

text \<open>
  Claim C7 at a failing input. The client was connected, explicitly disconnected and
  connected again; the new socket failed and closed, so reconnection is wanted, the state is
  error and a reconnect is pending with delay 1000. \<^verbatim>\<open>disconnect()\<close> has removed both
  listeners and \<^verbatim>\<open>connect()\<close> has not registered them again: the online signal and the
  visible-tab signal change nothing, where the claim has the timer cancelled, the attempt
  counter reset and a connection attempted at once.
\<close>

theorem signal_ignored_after_reuse:
  "shouldReconnect reusedClient \<and> reconnect (options reusedClient) = Some True \<and>
   getState reusedClient = ConnError \<and> reconnectTimer reusedClient = Some 1000 \<and>
   reconnectAttempt reusedClient = 1 \<and>
   step demoHost NetworkOnline reusedClient = reusedClient \<and>
   step demoHost (VisibilityChange True) reusedClient = reusedClient"
  by (simp add: reusedClient_def ws_defs demo_defs backoffDelay_def getState_def Let_def)

subsection \<open>Frames and sending\<close>

text \<open>
  Claim C8: for an inbound frame whose payload \<^verbatim>\<open>JSON.parse\<close> rejects, the message handler
  returns normally and its only effect is the line written to the console: the consumer's
  \<^verbatim>\<open>onMessage\<close> is not invoked, no state-change notification is issued and the connection
  state is unchanged.
\<close>

theorem onmessage_invalid_json:
  "jsonParse h payload = None \<Longrightarrow>
   onmessage h payload s = s\<lparr>effects := effects s @ [ConsoleError]\<rparr> \<and>
   getState (onmessage h payload s) = getState s"
  by (simp add: onmessage_def emit_def getState_def)

theorem onmessage_invalid_json_witness:
  "jsonParse demoHost ''{'' = None \<and>
   onmessage demoHost ''{'' openedClient
     = openedClient\<lparr>effects := effects openedClient @ [ConsoleError]\<rparr> \<and>
   getState (onmessage demoHost ''{'' openedClient) = Connected"
  using onmessage_invalid_json [of demoHost "''{''" openedClient]
  by (simp add: demoHost_def getState_def openedClient_eval)

text \<open>
  Claim C10: every \<^verbatim>\<open>send(message)\<close> while the state is not connected throws the
  "not connected" error, and nothing is transmitted: the client, with its record of
  effects, is as before.
\<close>

theorem send_not_connected:
  "state s \<noteq> Connected \<Longrightarrow> send h d s = Inl NotConnected \<and> step h (CallSend d) s = s"
  by (simp add: send_def step_def)

theorem send_not_connected_witness:
  "state failedClient \<noteq> Connected \<and>
   send demoHost ''ping'' failedClient = Inl NotConnected \<and>
   step demoHost (CallSend ''ping'') failedClient = failedClient"
  using send_not_connected [of failedClient demoHost "''ping''"]
  by (simp add: failedClient_eval)

section \<open>Properties of the tool execution tracker\<close>

lemmas tool_defs = registerToolCall_def startToolExecution_def updateToolExecution_def
  finishToolExecution_def getExecution_def appendOrder_def Let_def

lemmas demo_tool_defs = INITIAL_STATE_def noMessages_def streaming_def
  resolveCurrentAssistantMessageId_def objectPrototypeKeys_def

lemma applyOps_append: "applyOps (cs @ ds) st = applyOps ds (applyOps cs st)"
  by (induction cs arbitrary: st) simp_all

lemma registeredOnly_call:
  "executions registeredOnly ''call-1'' =
     Some \<lparr>toolCallId = Some ''call-1'', toolName = Some ''bash'', args = Some (),
           status = Some Called, partialResult = None, result = None, isError = None,
           startTime = Some 0, endTime = None, messageId = Some ''msg-1''\<rparr>"
  by (simp add: registeredOnly_def tool_defs demo_tool_defs)

lemma finishedCall_call:
  "executions finishedCall ''call-1'' =
     Some \<lparr>toolCallId = Some ''call-1'', toolName = Some ''bash'', args = Some (),
           status = Some Completed, partialResult = None, result = Some ''done'',
           isError = Some False, startTime = Some 0, endTime = Some 1,
           messageId = Some ''msg-1''\<rparr>"
  by (simp add: finishedCall_def tool_defs demo_tool_defs)

subsection \<open>Status order\<close>

lemma endStamped_applyOp: "endStamped st \<Longrightarrow> endStamped (applyOp c st)"
proof -
  assume a: "endStamped st"
  obtain m now op where c: "c = (m, now, op)" by (cases c) auto
  show ?thesis
    using a unfolding c endStamped_def
    by (cases op) (auto simp: tool_defs terminal_def noFields_def split: option.splits if_splits)
qed

lemma endStamped_applyOps: "endStamped st \<Longrightarrow> endStamped (applyOps cs st)"
  by (induction cs arbitrary: st) (simp_all add: endStamped_applyOp)

lemma endStamped_initial: "endStamped INITIAL_STATE"
  by (simp add: endStamped_def INITIAL_STATE_def)

lemma status_step:
  assumes "executions st cid = Some e"
  shows "\<exists>e'. executions (applyOp (m, now, op) st) cid = Some e' \<and>
           (\<not> terminal (status e) \<longrightarrow> statusRank (status e) \<le> statusRank (status e')) \<and>
           (terminal (status e) \<longrightarrow>
              status e' = status e \<or> (opId op = cid \<and> isStartOrFinish op))"
proof (cases op)
  case (Register k name a)
  then show ?thesis using assms by (auto simp: tool_defs)
next
  case (Start k name a)
  then show ?thesis using assms
    by (cases "status e" rule: statusRank.cases) (auto simp: tool_defs terminal_def)
next
  case (Update k p)
  then show ?thesis using assms by (auto simp: tool_defs split: option.splits)
next
  case (Finish k r err)
  then show ?thesis using assms
    by (cases "status e" rule: statusRank.cases) (auto simp: tool_defs terminal_def split: option.splits)
qed

text \<open>
  Claim C3, as the spec states it: once a record is completed it never changes status
  again. A call is registered and finished without error, so its status is completed; a
  \<^verbatim>\<open>startToolExecution\<close> for the same call id then makes it running again.
\<close>

theorem terminal_status_counterexample:
  "Option.bind
     (executions
        (applyOps [(noMessages, 0, Register ''call-1'' ''bash'' ()),
                   (noMessages, 1, Finish ''call-1'' ''done'' False)]
           (INITIAL_STATE :: (unit, string) ToolExecutionsStore)) ''call-1'') status
     = Some Completed \<and>
   Option.bind
     (executions
        (applyOps [(noMessages, 0, Register ''call-1'' ''bash'' ()),
                   (noMessages, 1, Finish ''call-1'' ''done'' False),
                   (noMessages, 2, Start ''call-1'' ''bash'' ())]
           (INITIAL_STATE :: (unit, string) ToolExecutionsStore)) ''call-1'') status
     = Some Running"
  by (simp add: tool_defs INITIAL_STATE_def noMessages_def
      resolveCurrentAssistantMessageId_def objectPrototypeKeys_def)

text \<open>
  Claim C3, amended: for every sequence of calls from the initial store, every call id with
  a record and every next call, the record is still there afterwards and
  \<^item> while its status is not terminal, the status keeps its rank or moves forward in the
    order called, running, completed or error;
  \<^item> once its status is terminal, the status is unchanged unless the call is a
    \<^verbatim>\<open>startToolExecution\<close> or a \<^verbatim>\<open>finishToolExecution\<close> on that same call id;
  \<^item> a record with a terminal status carries an end timestamp, before and after the call.
\<close>

theorem status_forward_until_terminal:
  "\<forall>e. executions (applyOps cs INITIAL_STATE) cid = Some e \<longrightarrow>
     (\<exists>e'. executions (applyOp (m, now, op) (applyOps cs INITIAL_STATE)) cid = Some e' \<and>
        (\<not> terminal (status e) \<longrightarrow> statusRank (status e) \<le> statusRank (status e')) \<and>
        (terminal (status e) \<longrightarrow>
           status e' = status e \<or> (opId op = cid \<and> isStartOrFinish op)) \<and>
        (terminal (status e) \<longrightarrow> endTime e \<noteq> None) \<and>
        (terminal (status e') \<longrightarrow> endTime e' \<noteq> None))"
proof (intro allI impI)
  fix e
  assume e: "executions (applyOps cs INITIAL_STATE) cid = Some e"
  let ?st = "applyOps cs INITIAL_STATE"
  have inv: "endStamped ?st" by (rule endStamped_applyOps [OF endStamped_initial])
  have inv': "endStamped (applyOp (m, now, op) ?st)" by (rule endStamped_applyOp [OF inv])
  obtain e' where e': "executions (applyOp (m, now, op) ?st) cid = Some e'"
    and mv: "\<not> terminal (status e) \<longrightarrow> statusRank (status e) \<le> statusRank (status e')"
    and tm: "terminal (status e) \<longrightarrow> status e' = status e \<or> (opId op = cid \<and> isStartOrFinish op)"
    using status_step [OF e, of m now op] by blast
  have "terminal (status e) \<longrightarrow> endTime e \<noteq> None"
    using inv e unfolding endStamped_def by blast
  moreover have "terminal (status e') \<longrightarrow> endTime e' \<noteq> None"
    using inv' e' unfolding endStamped_def by blast
  ultimately show "\<exists>e'. executions (applyOp (m, now, op) ?st) cid = Some e' \<and>
        (\<not> terminal (status e) \<longrightarrow> statusRank (status e) \<le> statusRank (status e')) \<and>
        (terminal (status e) \<longrightarrow>
           status e' = status e \<or> (opId op = cid \<and> isStartOrFinish op)) \<and>
        (terminal (status e) \<longrightarrow> endTime e \<noteq> None) \<and>
        (terminal (status e') \<longrightarrow> endTime e' \<noteq> None)"
    using e' mv tm by blast
qed

theorem status_forward_until_terminal_witness:
  "Option.bind (executions registeredOnly ''call-1'') status = Some Called \<and>
   Option.bind (executions (applyOp (noMessages, 1, Finish ''call-1'' ''done'' True) registeredOnly)
                  ''call-1'') status = Some ExecError \<and>
   Option.bind (executions (applyOp (noMessages, 1, Finish ''call-1'' ''done'' True) registeredOnly)
                  ''call-1'') endTime = Some 1 \<and>
   statusRank (Some Called) \<le> statusRank (Some ExecError) \<and>
   Option.bind (executions finishedCall ''call-1'') status = Some Completed \<and>
   Option.bind (executions finishedCall ''call-1'') endTime = Some 1 \<and>
   Option.bind (executions (applyOp (noMessages, 2, Update ''call-1'' ''late'') finishedCall)
                  ''call-1'') status = Some Completed"
  using status_forward_until_terminal
      [of "[(streaming ''msg-1'', 0, Register ''call-1'' ''bash'' ())]" "''call-1''"
          noMessages 1 "Finish ''call-1'' ''done'' True"]
    status_forward_until_terminal
      [of "[(streaming ''msg-1'', 0, Register ''call-1'' ''bash'' ()),
            (streaming ''msg-1'', 1, Finish ''call-1'' ''done'' False)]" "''call-1''"
          noMessages 2 "Update ''call-1'' ''late''"]
  by (simp add: registeredOnly_call finishedCall_call tool_defs)

subsection \<open>Owning message\<close>

lemma messageId_kept_step:
  assumes "executions st cid = Some e" "messageId e = Some mid"
  shows "\<exists>e'. executions (applyOp c st) cid = Some e' \<and> messageId e' = Some mid"
proof -
  obtain m now op where c: "c = (m, now, op)" by (cases c) auto
  show ?thesis using assms unfolding c
    by (cases op) (auto simp: tool_defs split: option.splits)
qed

lemma messageId_kept:
  assumes "executions st cid = Some e" "messageId e = Some mid"
  shows "\<exists>e'. executions (applyOps cs st) cid = Some e' \<and> messageId e' = Some mid"
  using assms
proof (induction cs arbitrary: st e)
  case Nil
  then show ?case by simp
next
  case (Cons c cs)
  obtain e1 where "executions (applyOp c st) cid = Some e1" "messageId e1 = Some mid"
    using messageId_kept_step [OF Cons.prems] by blast
  then show ?case using Cons.IH by simp
qed

lemma messageId_first:
  assumes "executions st cid = None"
  shows "Option.bind (executions (registerToolCall m now cid name a st) cid) messageId
           = resolveCurrentAssistantMessageId m"
    and "Option.bind (executions (startToolExecution m now cid name a st) cid) messageId
           = resolveCurrentAssistantMessageId m"
  using assms by (auto simp: tool_defs noFields_def split: option.splits)

lemma messageId_null:
  assumes "executions st cid = Some e" "messageId e = None"
  shows "Option.bind (executions (registerToolCall m now cid name a st) cid) messageId
           = resolveCurrentAssistantMessageId m"
    and "Option.bind (executions (startToolExecution m now cid name a st) cid) messageId
           = resolveCurrentAssistantMessageId m"
  using assms by (auto simp: tool_defs noFields_def split: option.splits)

text \<open>
  Claim C4, as the spec states it: the messageId resolved at first registration, null
  included, never changes. A call registered while there is no assistant message gets the
  messageId null; a \<^verbatim>\<open>startToolExecution\<close> on the same call id while the message
  \<open>msg-1\<close> is streaming then stores \<open>msg-1\<close>.
\<close>

theorem messageId_rebinding_counterexample:
  "Option.bind
     (executions
        (applyOps [(noMessages, 0, Register ''call-1'' ''bash'' ())]
           (INITIAL_STATE :: (unit, string) ToolExecutionsStore)) ''call-1'') messageId
     = None \<and>
   Option.bind
     (executions
        (applyOps [(noMessages, 0, Register ''call-1'' ''bash'' ()),
                   (streaming ''msg-1'', 1, Start ''call-1'' ''bash'' ())]
           (INITIAL_STATE :: (unit, string) ToolExecutionsStore)) ''call-1'') messageId
     = Some ''msg-1''"
  by (simp add: tool_defs INITIAL_STATE_def noMessages_def streaming_def
      resolveCurrentAssistantMessageId_def objectPrototypeKeys_def)

text \<open>
  Claim C4, amended: when a call id has no record, or a record whose messageId is null,
  \<^verbatim>\<open>registerToolCall\<close> and \<^verbatim>\<open>startToolExecution\<close> store the messageId resolved at that
  moment (the currently streaming message id if there is one, else the id of the most recent
  assistant message, else null); once a non-null messageId is stored for a call id, no
  sequence of later \<^verbatim>\<open>registerToolCall\<close>, \<^verbatim>\<open>startToolExecution\<close>,
  \<^verbatim>\<open>updateToolExecution\<close> or \<^verbatim>\<open>finishToolExecution\<close> calls, on that id or another and
  whatever message is streaming by then, changes it.
\<close>

theorem messageId_fixed_once_set:
  "(executions st cid = None \<or> (\<exists>e. executions st cid = Some e \<and> messageId e = None) \<longrightarrow>
      Option.bind (executions (registerToolCall m now cid name a st) cid) messageId
        = resolveCurrentAssistantMessageId m \<and>
      Option.bind (executions (startToolExecution m now cid name a st) cid) messageId
        = resolveCurrentAssistantMessageId m) \<and>
   (\<forall>e mid. executions st cid = Some e \<and> messageId e = Some mid \<longrightarrow>
      (\<exists>e'. executions (applyOps cs st) cid = Some e' \<and> messageId e' = Some mid))"
  using messageId_first [of st cid m now name a] messageId_null [of st cid _ m now name a]
    messageId_kept [of st cid _ _ cs]
  by blast

theorem messageId_fixed_once_set_witness:
  "executions (INITIAL_STATE :: (unit, string) ToolExecutionsStore) ''call-1'' = None \<and>
   Option.bind
     (executions (registerToolCall (streaming ''msg-1'') 0 ''call-1'' ''bash'' ()
                    (INITIAL_STATE :: (unit, string) ToolExecutionsStore)) ''call-1'') messageId
     = Some ''msg-1'' \<and>
   Option.bind (executions registeredOnly ''call-1'') messageId = Some ''msg-1'' \<and>
   Option.bind
     (executions
        (applyOps [(streaming ''msg-2'', 1, Start ''call-1'' ''bash'' ()),
                   (streaming ''msg-2'', 2, Register ''call-1'' ''bash'' ()),
                   (streaming ''msg-2'', 3, Finish ''call-1'' ''done'' False)] registeredOnly)
        ''call-1'') messageId
     = Some ''msg-1''"
  using messageId_fixed_once_set
      [of "INITIAL_STATE :: (unit, string) ToolExecutionsStore" "''call-1''" "streaming ''msg-1''" 0
          "''bash''" "()" "[]"]
    messageId_fixed_once_set
      [of registeredOnly "''call-1''" "streaming ''msg-1''" 0 "''bash''" "()"
          "[(streaming ''msg-2'', 1, Start ''call-1'' ''bash'' ()),
            (streaming ''msg-2'', 2, Register ''call-1'' ''bash'' ()),
            (streaming ''msg-2'', 3, Finish ''call-1'' ''done'' False)]"]
  by (simp add: registeredOnly_call tool_defs demo_tool_defs)

subsection \<open>A complete life cycle\<close>

lemma started:
  assumes "case executions st cid of
             Some e \<Rightarrow> (case startTime e of Some ts \<Rightarrow> ts \<le> t1 | None \<Rightarrow> True)
           | None \<Rightarrow> True"
    and "t1 \<le> t2"
  shows "\<exists>e ts. executions
           (startToolExecution m2 t2 cid n2 a2 (registerToolCall m1 t1 cid n1 a1 st)) cid = Some e \<and>
           startTime e = Some ts \<and> ts \<le> t2"
  using assms by (auto simp: tool_defs noFields_def split: option.splits)

lemma middle_step:
  assumes "executions st cid = Some e" "isUpdate op \<or> opId op \<noteq> cid"
  shows "\<exists>e'. executions (applyOp (m, now, op) st) cid = Some e' \<and> startTime e' = startTime e"
  using assms by (cases op) (auto simp: tool_defs split: option.splits)

lemma middle_run:
  assumes "executions st cid = Some e" "updatesOrOthers cid cs"
  shows "\<exists>e'. executions (applyOps cs st) cid = Some e' \<and> startTime e' = startTime e"
  using assms
proof (induction cs arbitrary: st e)
  case Nil
  then show ?case by simp
next
  case (Cons c cs)
  obtain m now op where c: "c = (m, now, op)" by (cases c) auto
  have ok: "isUpdate op \<or> opId op \<noteq> cid" and rest: "updatesOrOthers cid cs"
    using Cons.prems(2) c by simp_all
  obtain e1 where e1: "executions (applyOp (m, now, op) st) cid = Some e1"
    "startTime e1 = startTime e"
    using middle_step [OF Cons.prems(1) ok] by blast
  show ?case using Cons.IH [OF e1(1) rest] e1(2) c by simp
qed

lemma finished:
  assumes "executions st cid = Some e"
  shows "\<exists>e'. executions (finishToolExecution t3 cid res err st) cid = Some e' \<and>
           status e' = Some (if err then ExecError else Completed) \<and>
           result e' = Some res \<and> startTime e' = startTime e \<and> endTime e' = Some t3"
  using assms by (simp add: tool_defs)

text \<open>
  Claim C5: for every call id and every sequence register, start, then partial updates of
  that id (and calls on other ids), then finish, under a monotone clock (a start time
  already recorded for the id is not later than the register call), the final record has
  status completed when finish was called with \<^verbatim>\<open>isError = false\<close> and error when with
  \<^verbatim>\<open>true\<close>, its result is the one passed to finish, and its start time is at most its
  end time.
\<close>

theorem lifecycle_final_record:
  assumes "case executions st cid of
             Some e \<Rightarrow> (case startTime e of Some ts \<Rightarrow> ts \<le> t1 | None \<Rightarrow> True)
           | None \<Rightarrow> True"
    and "t1 \<le> t2" "t2 \<le> t3" "updatesOrOthers cid mid"
  shows "\<exists>e ts. executions
           (applyOps ((m1, t1, Register cid n1 a1) # (m2, t2, Start cid n2 a2) # mid
                        @ [(m3, t3, Finish cid res err)]) st)
           cid = Some e \<and>
         status e = Some (if err then ExecError else Completed) \<and>
         result e = Some res \<and> startTime e = Some ts \<and> endTime e = Some t3 \<and> ts \<le> t3"
proof -
  let ?s2 = "startToolExecution m2 t2 cid n2 a2 (registerToolCall m1 t1 cid n1 a1 st)"
  obtain e2 ts where e2: "executions ?s2 cid = Some e2" "startTime e2 = Some ts" "ts \<le> t2"
    using started [OF assms(1,2)] by blast
  obtain e3 where e3: "executions (applyOps mid ?s2) cid = Some e3" "startTime e3 = startTime e2"
    using middle_run [OF e2(1) assms(4)] by blast
  obtain e4 where e4: "executions (finishToolExecution t3 cid res err (applyOps mid ?s2)) cid = Some e4"
    "status e4 = Some (if err then ExecError else Completed)" "result e4 = Some res"
    "startTime e4 = startTime e3" "endTime e4 = Some t3"
    using finished [OF e3(1)] by blast
  have run: "applyOps ((m1, t1, Register cid n1 a1) # (m2, t2, Start cid n2 a2) # mid
                         @ [(m3, t3, Finish cid res err)]) st
             = finishToolExecution t3 cid res err (applyOps mid ?s2)"
    by (simp add: applyOps_append)
  have "ts \<le> t3" using e2(3) assms(3) by simp
  then show ?thesis using e4 e3(2) e2(2) run by simp
qed

theorem lifecycle_final_record_witness:
  "(10::int) \<le> 20 \<and> (20::int) \<le> 30 \<and>
   updatesOrOthers ''call-1''
     [(streaming ''msg-1'', 25, Update ''call-1'' ''half''),
      (streaming ''msg-1'', 26, Register ''call-2'' ''read'' ())] \<and>
   executions
     (applyOps ((streaming ''msg-1'', 10, Register ''call-1'' ''bash'' ())
                # (streaming ''msg-1'', 20, Start ''call-1'' ''bash'' ())
                # [(streaming ''msg-1'', 25, Update ''call-1'' ''half''),
                   (streaming ''msg-1'', 26, Register ''call-2'' ''read'' ())]
                @ [(streaming ''msg-1'', 30, Finish ''call-1'' ''done'' True)])
        INITIAL_STATE) ''call-1''
     = Some \<lparr>toolCallId = Some ''call-1'', toolName = Some ''bash'', args = Some (),
             status = Some ExecError, partialResult = Some ''half'', result = Some ''done'',
             isError = Some True, startTime = Some 10, endTime = Some 30,
             messageId = Some ''msg-1''\<rparr>"
  using lifecycle_final_record
      [where st = "INITIAL_STATE :: (unit, string) ToolExecutionsStore" and cid = "''call-1''"
         and ?t1.0 = 10 and ?t2.0 = 20 and ?t3.0 = 30
         and mid = "[(streaming ''msg-1'', 25, Update ''call-1'' ''half''),
                     (streaming ''msg-1'', 26, Register ''call-2'' ''read'' ())]"
         and ?m1.0 = "streaming ''msg-1''" and ?n1.0 = "''bash''" and ?a1.0 = "()"
         and ?m2.0 = "streaming ''msg-1''" and ?n2.0 = "''bash''" and ?a2.0 = "()"
         and ?m3.0 = "streaming ''msg-1''" and res = "''done''" and err = True]
  by (simp add: tool_defs demo_tool_defs)

subsection \<open>Unknown call ids\<close>

text \<open>
  For a call id that has no record and is not a name inherited from \<^verbatim>\<open>Object.prototype\<close>,
  \<^verbatim>\<open>updateToolExecution\<close> and \<^verbatim>\<open>finishToolExecution\<close> return the store as it is.
\<close>

lemma unknown_id_noop:
  assumes "executions st cid = None" "cid \<notin> set objectPrototypeKeys"
  shows "updateToolExecution cid p st = st \<and> finishToolExecution now cid r err st = st"
  using assms by (simp add: tool_defs)

text \<open>
  Claim C9 at a failing input. The call id \<open>constructor\<close> has no record in the initial
  store and is not in \<^verbatim>\<open>executionOrder\<close>, yet \<^verbatim>\<open>state.executions['constructor']\<close> is
  the inherited \<^verbatim>\<open>Object\<close> function, which is truthy: the guard
  \<^verbatim>\<open>if (!execution) return state\<close> does not fire, and both \<^verbatim>\<open>updateToolExecution\<close> and
  \<^verbatim>\<open>finishToolExecution\<close> store a new entry under that id, where the claim has them
  leave the store unchanged.
\<close>

theorem unknown_prototype_key_not_noop:
  "executions (INITIAL_STATE :: (unit, string) ToolExecutionsStore) ''constructor'' = None \<and>
   ''constructor'' \<notin> set (executionOrder (INITIAL_STATE :: (unit, string) ToolExecutionsStore)) \<and>
   updateToolExecution ''constructor'' ''partial'' (INITIAL_STATE :: (unit, string) ToolExecutionsStore)
     \<noteq> INITIAL_STATE \<and>
   executions
     (updateToolExecution ''constructor'' ''partial'' (INITIAL_STATE :: (unit, string) ToolExecutionsStore))
     ''constructor'' = Some (noFields\<lparr>partialResult := Some ''partial''\<rparr>) \<and>
   finishToolExecution 5 ''constructor'' ''done'' False (INITIAL_STATE :: (unit, string) ToolExecutionsStore)
     \<noteq> INITIAL_STATE \<and>
   executions
     (finishToolExecution 5 ''constructor'' ''done'' False (INITIAL_STATE :: (unit, string) ToolExecutionsStore))
     ''constructor''
     = Some (noFields\<lparr>status := Some Completed, result := Some ''done'',
                      isError := Some False, endTime := Some 5\<rparr>)"
proof -
  have u: "executions
     (updateToolExecution ''constructor'' ''partial'' (INITIAL_STATE :: (unit, string) ToolExecutionsStore))
     ''constructor'' = Some (noFields\<lparr>partialResult := Some ''partial''\<rparr>)"
    by (simp add: tool_defs INITIAL_STATE_def objectPrototypeKeys_def)
  have f: "executions
     (finishToolExecution 5 ''constructor'' ''done'' False (INITIAL_STATE :: (unit, string) ToolExecutionsStore))
     ''constructor''
     = Some (noFields\<lparr>status := Some Completed, result := Some ''done'',
                      isError := Some False, endTime := Some 5\<rparr>)"
    by (simp add: tool_defs INITIAL_STATE_def objectPrototypeKeys_def)
  have i: "executions (INITIAL_STATE :: (unit, string) ToolExecutionsStore) ''constructor'' = None"
    "''constructor'' \<notin> set (executionOrder (INITIAL_STATE :: (unit, string) ToolExecutionsStore))"
    by (simp_all add: INITIAL_STATE_def)
  from u i have "updateToolExecution ''constructor'' ''partial''
      (INITIAL_STATE :: (unit, string) ToolExecutionsStore) \<noteq> INITIAL_STATE" by force
  moreover from f i have "finishToolExecution 5 ''constructor'' ''done'' False
      (INITIAL_STATE :: (unit, string) ToolExecutionsStore) \<noteq> INITIAL_STATE" by force
  ultimately show ?thesis using u f i by blast
qed

end
